theory Spec2Isabelle
  imports Main "HOL-Library.Sublist"
begin

section \<open>Mermaid diagram verification script: a shallow embedding\<close>

text \<open>
  The development follows \<^verbatim>\<open>verify_mermaid_diagrams.py\<close>. A Python \<^verbatim>\<open>str\<close> is
  modelled as a \<^typ>\<open>string\<close> whose characters stand for the code points 0 to 255; all
  literals of the script are ASCII. Python integers are \<^typ>\<open>int\<close>. Console output
  (\<^verbatim>\<open>print\<close>) is not part of the model.
\<close>

subsection \<open>Python string primitives\<close>

text \<open>\<^verbatim>\<open>str.isspace\<close> on one character, which is also the class \<^verbatim>\<open>\s\<close> of \<^verbatim>\<open>re\<close>.\<close>

definition isspace :: "char \<Rightarrow> bool" where
  "isspace c \<longleftrightarrow> c \<in> set [CHR 0x09, CHR 0x0A, CHR 0x0B, CHR 0x0C, CHR 0x0D,
     CHR 0x1C, CHR 0x1D, CHR 0x1E, CHR 0x1F, CHR 0x20, CHR 0x85, CHR 0xA0]"

text \<open>The class \<^verbatim>\<open>\w\<close> of \<^verbatim>\<open>re\<close> on a \<^verbatim>\<open>str\<close> pattern: alphanumerics and the underscore.\<close>

definition isword :: "char \<Rightarrow> bool" where
  "isword c \<longleftrightarrow> (let n = (of_char c :: nat) in
     (48 \<le> n \<and> n \<le> 57) \<or> (65 \<le> n \<and> n \<le> 90) \<or> n = 95 \<or> (97 \<le> n \<and> n \<le> 122) \<or>
     n = 170 \<or> n = 178 \<or> n = 179 \<or> n = 181 \<or> n = 185 \<or> n = 186 \<or>
     (188 \<le> n \<and> n \<le> 190) \<or> (192 \<le> n \<and> n \<le> 214) \<or> (216 \<le> n \<and> n \<le> 246) \<or>
     248 \<le> n)"

definition lstrip :: "string \<Rightarrow> string" where
  "lstrip s = dropWhile isspace s"

definition rstrip :: "string \<Rightarrow> string" where
  "rstrip s = rev (dropWhile isspace (rev s))"

text \<open>\<^verbatim>\<open>s.strip()\<close>\<close>

definition strip :: "string \<Rightarrow> string" where
  "strip s = rstrip (lstrip s)"

text \<open>\<^verbatim>\<open>s.split('\n')\<close>: never empty, \<^verbatim>\<open>''.split('\n') == ['']\<close>.\<close>

fun split_nl :: "string \<Rightarrow> string list" where
  "split_nl [] = [[]]"
| "split_nl (c # cs) =
     (if c = CHR 0x0A then [] # split_nl cs
      else (case split_nl cs of [] \<Rightarrow> [[c]] | l # ls \<Rightarrow> (c # l) # ls))"

text \<open>\<^verbatim>\<open>sub in s\<close>\<close>

fun contains :: "string \<Rightarrow> string \<Rightarrow> bool" where
  "contains sub [] = (sub = [])"
| "contains sub (c # cs) = (prefix sub (c # cs) \<or> contains sub cs)"

text \<open>\<^verbatim>\<open>s.find(sub)\<close>: the least index of an occurrence, or \<open>-1\<close>.\<close>

fun find_index :: "string \<Rightarrow> string \<Rightarrow> nat option" where
  "find_index sub [] = (if sub = [] then Some 0 else None)"
| "find_index sub (c # cs) =
     (if prefix sub (c # cs) then Some 0 else map_option Suc (find_index sub cs))"

definition py_find :: "string \<Rightarrow> string \<Rightarrow> int" where
  "py_find s sub = (case find_index sub s of None \<Rightarrow> - 1 | Some i \<Rightarrow> int i)"

text \<open>\<^verbatim>\<open>s[:i]\<close>, a negative \<open>i\<close> counting from the end.\<close>

definition slice_to :: "string \<Rightarrow> int \<Rightarrow> string" where
  "slice_to s i = (if 0 \<le> i then take (nat i) s else take (nat (int (length s) + i)) s)"

text \<open>\<^verbatim>\<open>s.count(c)\<close> for a one-character \<open>c\<close>.\<close>

definition count_char :: "string \<Rightarrow> char \<Rightarrow> int" where
  "count_char s c = int (count_list s c)"

text \<open>\<^verbatim>\<open>str(n)\<close> for an integer, as the f-strings format it.\<close>

definition digit_char :: "nat \<Rightarrow> char" where
  "digit_char d = char_of (48 + d)"

function str_nat :: "nat \<Rightarrow> string" where
  "str_nat n = (if n < 10 then [digit_char n] else str_nat (n div 10) @ [digit_char (n mod 10)])"
  by pat_completeness auto
termination
  by (relation "measure id") auto

definition py_str :: "int \<Rightarrow> string" where
  "py_str i = (if i < 0 then CHR ''-'' # str_nat (nat (- i)) else str_nat (nat i))"

subsection \<open>The regular expressions of the script\<close>

text \<open>
  \<^verbatim>\<open>re.match\<close> for patterns that are a sequence of single characters and classes,
  each taken once or one-or-more times. The matcher backtracks over every length of
  a repetition, so it decides whether some match at the start of the text exists.
\<close>

datatype atom = Lit char | Space | Word

datatype item = One atom | Plus atom

fun atom_ok :: "atom \<Rightarrow> char \<Rightarrow> bool" where
  "atom_ok (Lit a) c = (a = c)"
| "atom_ok Space c = isspace c"
| "atom_ok Word c = isword c"

fun re_match :: "item list \<Rightarrow> string \<Rightarrow> bool" where
  "re_match [] s = True"
| "re_match (One a # r) [] = False"
| "re_match (One a # r) (c # s) = (atom_ok a c \<and> re_match r s)"
| "re_match (Plus a # r) [] = False"
| "re_match (Plus a # r) (c # s) = (atom_ok a c \<and> (re_match (Plus a # r) s \<or> re_match r s))"

text \<open>\<^verbatim>\<open>r'style\s+\w+\s+fill:'\<close>\<close>

definition style_pattern :: "item list" where
  "style_pattern = map (\<lambda>c. One (Lit c)) ''style'' @ [Plus Space, Plus Word, Plus Space]
     @ map (\<lambda>c. One (Lit c)) ''fill:''"

text \<open>
  \<^verbatim>\<open>re.findall(r'```mermaid\n(.*?)\n```', content, re.DOTALL)\<close>: the scan goes left to
  right; at an opening fence the lazy group takes the text up to the first closing
  fence, and the scan resumes behind it; where no match starts, it moves on by one
  character. The result lists the captured groups.
\<close>

definition fence_open :: string where
  "fence_open = ''```mermaid'' @ [CHR 0x0A]"

definition fence_close :: string where
  "fence_close = CHR 0x0A # ''```''"

function findall_mermaid :: "string \<Rightarrow> string list" where
  "findall_mermaid [] = []"
| "findall_mermaid (c # cs) =
     (if prefix fence_open (c # cs) then
        (let rest = drop (length fence_open) (c # cs) in
         case find_index fence_close rest of
           Some k \<Rightarrow> take k rest # findall_mermaid (drop (k + length fence_close) rest)
         | None \<Rightarrow> findall_mermaid cs)
      else findall_mermaid cs)"
  by pat_completeness auto
termination
  by (relation "measure length") (auto simp: fence_open_def)

subsection \<open>Diagram extraction\<close>

text \<open>
  A markdown file as the script sees it: \<^verbatim>\<open>file_path.name\<close>, \<^verbatim>\<open>str(file_path)\<close> and
  what \<^verbatim>\<open>open\<close> and \<^verbatim>\<open>read\<close> give, the text or the text of the exception raised.
\<close>

record md_file =
  fname :: string
  fpath :: string
  ftext :: "string + string"

record diagram =
  d_id :: string
  d_file :: string
  content :: string
  line_number :: int

definition extract_mermaid_diagrams :: "md_file \<Rightarrow> diagram list" where
  "extract_mermaid_diagrams file_path =
     (case ftext file_path of
        Inl e \<Rightarrow> []
      | Inr text \<Rightarrow>
          map (\<lambda>(i, m).
                 \<lparr>d_id = fname file_path @ ''_'' @ py_str (int i),
                  d_file = fpath file_path,
                  content = strip m,
                  line_number = count_char (slice_to text (py_find text m)) (CHR 0x0A) + 1\<rparr>)
              (enumerate 0 (findall_mermaid text)))"

subsection \<open>Syntax validation\<close>

definition bracket_errors :: "string \<Rightarrow> string list" where
  "bracket_errors diagram_content =
     (let open_brackets = count_char diagram_content CHR ''['' - count_char diagram_content CHR '']'';
          open_braces = count_char diagram_content CHR ''{'' - count_char diagram_content CHR ''}'';
          open_parens = count_char diagram_content CHR ''('' - count_char diagram_content CHR '')''
      in (if open_brackets \<noteq> 0 then [''Unclosed brackets: '' @ py_str open_brackets] else [])
       @ (if open_braces \<noteq> 0 then [''Unclosed braces: '' @ py_str open_braces] else [])
       @ (if open_parens \<noteq> 0 then [''Unclosed parentheses: '' @ py_str open_parens] else []))"

definition valid_types :: "string list" where
  "valid_types = [''graph TD'', ''graph LR'', ''sequenceDiagram'', ''gantt'', ''erDiagram'',
     ''flowchart'', ''stateDiagram'']"

text \<open>The two nested loops over \<^verbatim>\<open>lines[:3]\<close> and \<^verbatim>\<open>valid_types\<close>, leaving at the first hit.\<close>

fun detect_type :: "string list \<Rightarrow> string option" where
  "detect_type [] = None"
| "detect_type (line # lines) =
     (case find (\<lambda>vtype. contains vtype line) valid_types of
        Some vtype \<Rightarrow> Some vtype
      | None \<Rightarrow> detect_type lines)"

definition arrow_patterns :: "string list" where
  "arrow_patterns = [''-->'', ''---'', ''==>'', ''=='', ''-.->'', ''-.-'']"

definition style_errors :: "string list \<Rightarrow> string list" where
  "style_errors lines =
     (let style_lines = filter (\<lambda>line. prefix ''style '' (strip line)) lines
      in map (\<lambda>style_line. ''Invalid style syntax: '' @ strip style_line)
           (filter (\<lambda>style_line. \<not> re_match style_pattern style_line) style_lines))"

definition validate_mermaid_syntax :: "string \<Rightarrow> string list \<times> string option" where
  "validate_mermaid_syntax diagram_content =
     (let lines = split_nl diagram_content;
          errors = bracket_errors diagram_content;
          diagram_type = detect_type (take 3 lines);
          errors = errors @ (if diagram_type = None then [''No valid diagram type found''] else []);
          has_arrows = list_ex (\<lambda>pattern. contains pattern diagram_content) arrow_patterns;
          errors = errors @
            (if \<not> has_arrows \<and> (case diagram_type of None \<Rightarrow> False | Some t \<Rightarrow> contains ''graph'' t)
             then [''Graph diagram missing arrow connections''] else []);
          errors = errors @ style_errors lines
      in (errors, diagram_type))"

subsection \<open>The render probe\<close>

text \<open>
  What the operating system does during one probe: \<^verbatim>\<open>NamedTemporaryFile\<close> gives the
  path of a new file or raises; \<^verbatim>\<open>f.write\<close> of a text succeeds or raises;
  \<^verbatim>\<open>subprocess.run\<close> of the renderer on an input file holding a text completes with a
  return code and its standard error, or raises; \<^verbatim>\<open>os.unlink\<close> of a path succeeds or
  raises. An exception is given by its message.
\<close>

datatype run_outcome =
    Completed int string
  | TimeoutExpired
  | FileNotFoundError
  | OtherError string

record os_env =
  tmp_create :: "string + string"
  tmp_write :: "string \<Rightarrow> string option"
  mmdc :: "string \<Rightarrow> run_outcome"
  os_unlink :: "string \<Rightarrow> string option"

datatype event =
    ReadFile string
  | NamedTemporaryFile
  | Write string string
  | Run "string list" nat
  | Unlink string
  | WriteReport string

text \<open>The files on disk and the system calls made so far.\<close>

record world =
  disk :: "string set"
  trace :: "event list"

definition record_call :: "world \<Rightarrow> event \<Rightarrow> world" where
  "record_call w e = w\<lparr>trace := trace w @ [e]\<rparr>"

definition test_mermaid_rendering ::
    "os_env \<Rightarrow> world \<Rightarrow> string \<Rightarrow> (bool option \<times> string) \<times> world" where
  "test_mermaid_rendering os w diagram_content =
     (let w1 = record_call w NamedTemporaryFile in
      case tmp_create os of
        Inl e \<Rightarrow> ((Some False, ''Rendering test error: '' @ e), w1)
      | Inr temp_file \<Rightarrow>
          (let w2 = record_call (w1\<lparr>disk := insert temp_file (disk w1)\<rparr>) (Write temp_file diagram_content) in
           case tmp_write os diagram_content of
             Some e \<Rightarrow> ((Some False, ''Rendering test error: '' @ e), w2)
           | None \<Rightarrow>
               (let w3 = record_call w2 (Run [''mmdc'', ''-i'', temp_file, ''-o'', ''/dev/null'', ''--quiet''] 10);
                    inner = (case mmdc os diagram_content of
                               Completed returncode stderr \<Rightarrow>
                                 Inr (if returncode = 0 then (Some True, ''Rendered successfully'')
                                      else (Some False, ''Rendering failed: '' @ stderr))
                             | TimeoutExpired \<Rightarrow> Inr (None, ''Mermaid CLI not available'')
                             | FileNotFoundError \<Rightarrow> Inr (None, ''Mermaid CLI not available'')
                             | OtherError e \<Rightarrow> Inl e);
                    w4 = record_call w3 (Unlink temp_file)
                in case os_unlink os temp_file of
                     Some e \<Rightarrow> ((Some False, ''Rendering test error: '' @ e), w4)
                   | None \<Rightarrow>
                       ((case inner of
                           Inl e \<Rightarrow> (Some False, ''Rendering test error: '' @ e)
                         | Inr r \<Rightarrow> r),
                        w4\<lparr>disk := disk w4 - {temp_file}\<rparr>))))"

subsection \<open>The orchestrator\<close>

record validation_result =
  r_id :: string
  r_file :: string
  r_type :: "string option"
  syntax_errors :: "string list"
  render_test :: "bool option"
  render_message :: "string option"

text \<open>
  The surroundings of a run: whether \<^verbatim>\<open>docs\<close> exists, what \<^verbatim>\<open>docs_dir.glob("*.md")\<close>
  lists, what the operating system does during the probe of the \<open>k\<close>-th diagram, and
  whether writing the report raises.
\<close>

record env =
  docs_exists :: bool
  markdown_files :: "md_file list"
  probe_os :: "nat \<Rightarrow> os_env"
  report_write :: "string option"

text \<open>One round of the loop over \<^verbatim>\<open>all_diagrams\<close>.\<close>

definition validate_one ::
    "os_env \<Rightarrow> diagram \<Rightarrow> int \<times> validation_result list \<times> world
       \<Rightarrow> int \<times> validation_result list \<times> world" where
  "validate_one os d st =
     (case st of (total_errors, validation_results, w) \<Rightarrow>
        (case validate_mermaid_syntax (content d) of (errors, diagram_type) \<Rightarrow>
           (let result = \<lparr>r_id = d_id d, r_file = d_file d, r_type = diagram_type,
                          syntax_errors = errors, render_test = None, render_message = None\<rparr>;
                total_errors = (if errors \<noteq> [] then total_errors + int (length errors)
                                else total_errors)
            in case test_mermaid_rendering os w (content d) of
                 ((render_result, message), w') \<Rightarrow>
                   (let result = result\<lparr>render_test := render_result,
                                        render_message := Some message\<rparr>;
                        total_errors = (if render_result = Some True then total_errors
                                        else if render_result = Some False then total_errors + 1
                                        else total_errors)
                    in (total_errors, validation_results @ [result], w')))))"

fun validate_loop ::
    "(nat \<Rightarrow> os_env) \<Rightarrow> nat \<Rightarrow> diagram list \<Rightarrow> int \<times> validation_result list \<times> world
       \<Rightarrow> int \<times> validation_result list \<times> world" where
  "validate_loop oss k [] st = st"
| "validate_loop oss k (d # ds) st = validate_loop oss (Suc k) ds (validate_one (oss k) d st)"

text \<open>
  What \<^verbatim>\<open>main\<close> does: it returns \<^verbatim>\<open>None\<close> or a truth value, or an exception leaves it.
\<close>

datatype py_result = Returned "bool option" | Raised string

text \<open>\<^verbatim>\<open>exit(0 if success else 1)\<close>; an uncaught exception ends the interpreter with 1.\<close>

fun exit_status :: "py_result \<Rightarrow> int" where
  "exit_status (Returned (Some True)) = 0"
| "exit_status (Returned _) = 1"
| "exit_status (Raised e) = 1"

text \<open>
  A run: how \<^verbatim>\<open>main\<close> ended, the final \<^verbatim>\<open>total_errors\<close> (if the variable was ever
  bound), the \<^verbatim>\<open>validation_results\<close> built, the report written (if any) and the world
  left behind.
\<close>

record run =
  outcome :: py_result
  total_errors :: "int option"
  results :: "validation_result list"
  report :: "validation_result list option"
  final :: world

definition results_file :: string where
  "results_file = ''mermaid_validation_results.json''"

definition main :: "env \<Rightarrow> world \<Rightarrow> run" where
  "main e w =
     (if \<not> docs_exists e then
        \<lparr>outcome = Returned None, total_errors = None, results = [], report = None, final = w\<rparr>
      else if markdown_files e = [] then
        \<lparr>outcome = Returned None, total_errors = None, results = [], report = None, final = w\<rparr>
      else
        (let all_diagrams = concat (map extract_mermaid_diagrams (markdown_files e));
             w = w\<lparr>trace := trace w @ map (\<lambda>f. ReadFile (fpath f)) (markdown_files e)\<rparr>
         in case validate_loop (probe_os e) 0 all_diagrams (0, [], w) of
              (n_errors, validation_results, w) \<Rightarrow>
                (let w = record_call w (WriteReport results_file) in
                 case report_write e of
                   Some ex \<Rightarrow>
                     \<lparr>outcome = Raised ex, total_errors = Some n_errors,
                      results = validation_results, report = None, final = w\<rparr>
                 | None \<Rightarrow>
                     \<lparr>outcome = Returned (Some (n_errors = 0)), total_errors = Some n_errors,
                      results = validation_results, report = Some validation_results,
                      final = w\<lparr>disk := insert results_file (disk w)\<rparr>\<rparr>)))"

text \<open>
  The total error count as the specification words it: the lengths of all
  \<^verbatim>\<open>syntax_errors\<close>, plus one for each result whose \<^verbatim>\<open>render_test\<close> is false.
\<close>

definition total_error_count :: "validation_result list \<Rightarrow> int" where
  "total_error_count rs =
     (\<Sum>r\<leftarrow>rs. int (length (syntax_errors r)))
       + int (length (filter (\<lambda>r. render_test r = Some False) rs))"


subsection \<open>Example inputs\<close>

text \<open>A graph whose first node label is never closed.\<close>

definition scenario_B :: string where
  "scenario_B = ''graph TD'' @ [CHR 0x0A] @ ''A[Start'' @ [CHR 0x0A] @ ''B(End)''"

text \<open>The lines the specification has the dialect detection look at: the first \<open>n\<close>
  non-empty ones.\<close>

definition first_nonempty_lines :: "nat \<Rightarrow> string \<Rightarrow> string list" where
  "first_nonempty_lines n c = take n (filter (\<lambda>line. line \<noteq> []) (split_nl c))"

text \<open>A diagram whose header comes after a comment line and two blank lines.\<close>

definition late_header :: string where
  "late_header = ''%% title'' @ [CHR 0x0A, CHR 0x0A, CHR 0x0A] @ ''graph TD'' @ [CHR 0x0A] @ ''A-->B''"

text \<open>A flowchart with an indented, well-formed style statement.\<close>

definition indented_style :: string where
  "indented_style = ''flowchart'' @ [CHR 0x0A] @ ''  style X fill:red''"

text \<open>
  The same scan as \<^const>\<open>findall_mermaid\<close>, keeping for each match the offset at which the
  captured group starts (\<^verbatim>\<open>m.start(1)\<close> of \<^verbatim>\<open>re.finditer\<close>).
\<close>

function match_starts :: "nat \<Rightarrow> string \<Rightarrow> (nat \<times> string) list" where
  "match_starts pos [] = []"
| "match_starts pos (c # cs) =
     (if prefix fence_open (c # cs) then
        (let rest = drop (length fence_open) (c # cs) in
         case find_index fence_close rest of
           Some k \<Rightarrow> (pos + length fence_open, take k rest)
                     # match_starts (pos + length fence_open + k + length fence_close)
                         (drop (k + length fence_close) rest)
         | None \<Rightarrow> match_starts (Suc pos) cs)
      else match_starts (Suc pos) cs)"
  by pat_completeness auto
termination
  by (relation "measure (\<lambda>(pos, s). length s)") (auto simp: fence_open_def)

text \<open>
  The line numbers as the specification words them: the newline characters in the text
  before the start of the match, plus one.
\<close>

definition spec_line_numbers :: "string \<Rightarrow> int list" where
  "spec_line_numbers text =
     map (\<lambda>(start, m). count_char (take start text) (CHR 0x0A) + 1) (match_starts 0 text)"

text \<open>
  The content as the specification words it: a single leading and a single trailing
  newline stripped.
\<close>

definition strip_newline_once :: "string \<Rightarrow> string" where
  "strip_newline_once s =
     (let s1 = (case s of [] \<Rightarrow> [] | c # cs \<Rightarrow> if c = CHR 0x0A then cs else s)
      in if s1 \<noteq> [] \<and> last s1 = CHR 0x0A then butlast s1 else s1)"

text \<open>A file with the same diagram in two blocks.\<close>

definition twice_text :: string where
  "twice_text = ''```mermaid'' @ [CHR 0x0A] @ ''graph TD'' @ [CHR 0x0A] @ ''A-->B'' @ [CHR 0x0A]
     @ ''```'' @ [CHR 0x0A, CHR 0x0A]
     @ ''```mermaid'' @ [CHR 0x0A] @ ''graph TD'' @ [CHR 0x0A] @ ''A-->B'' @ [CHR 0x0A]
     @ ''```'' @ [CHR 0x0A]"

definition twice_file :: md_file where
  "twice_file = \<lparr>fname = ''a.md'', fpath = ''docs/a.md'', ftext = Inr twice_text\<rparr>"

text \<open>A file whose only diagram is indented by two spaces.\<close>

definition indented_text :: string where
  "indented_text = ''```mermaid'' @ [CHR 0x0A] @ ''  graph TD'' @ [CHR 0x0A] @ ''```''"

definition indented_file :: md_file where
  "indented_file = \<lparr>fname = ''b.md'', fpath = ''docs/b.md'', ftext = Inr indented_text\<rparr>"

text \<open>Nothing on disk, no call made yet.\<close>

definition clean_world :: world where
  "clean_world = \<lparr>disk = {}, trace = []\<rparr>"

text \<open>The renderer is not installed.\<close>

definition os_absent :: os_env where
  "os_absent = \<lparr>tmp_create = Inr ''/tmp/tmpk3v9.mmd'', tmp_write = (\<lambda>s. None),
     mmdc = (\<lambda>s. FileNotFoundError), os_unlink = (\<lambda>p. None)\<rparr>"

text \<open>The renderer does not finish in time.\<close>

definition os_slow :: os_env where
  "os_slow = \<lparr>tmp_create = Inr ''/tmp/tmpk3v9.mmd'', tmp_write = (\<lambda>s. None),
     mmdc = (\<lambda>s. TimeoutExpired), os_unlink = (\<lambda>p. None)\<rparr>"

text \<open>A renderer that accepts graphs and rejects everything else.\<close>

definition os_present :: os_env where
  "os_present = \<lparr>tmp_create = Inr ''/tmp/tmpk3v9.mmd'', tmp_write = (\<lambda>s. None),
     mmdc = (\<lambda>s. if contains ''graph'' s then Completed 0 [] else Completed 1 ''Parse error''),
     os_unlink = (\<lambda>p. None)\<rparr>"

text \<open>Starting the renderer raises some other error.\<close>

definition os_denied :: os_env where
  "os_denied = \<lparr>tmp_create = Inr ''/tmp/tmpk3v9.mmd'', tmp_write = (\<lambda>s. None),
     mmdc = (\<lambda>s. OtherError ''Permission denied''), os_unlink = (\<lambda>p. None)\<rparr>"

text \<open>No temporary file can be created.\<close>

definition os_full :: os_env where
  "os_full = \<lparr>tmp_create = Inl ''No space left on device'', tmp_write = (\<lambda>s. None),
     mmdc = (\<lambda>s. FileNotFoundError), os_unlink = (\<lambda>p. None)\<rparr>"

text \<open>The temporary file is opened with an ASCII-only default encoding.\<close>

definition os_ascii :: os_env where
  "os_ascii = \<lparr>tmp_create = Inr ''/tmp/tmpk3v9.mmd'',
     tmp_write = (\<lambda>s. if list_all (\<lambda>c. (of_char c :: nat) < 128) s then None
                      else Some ''codec cannot encode character''),
     mmdc = (\<lambda>s. FileNotFoundError), os_unlink = (\<lambda>p. None)\<rparr>"

text \<open>The temporary file cannot be removed.\<close>

definition os_locked :: os_env where
  "os_locked = \<lparr>tmp_create = Inr ''/tmp/tmpk3v9.mmd'', tmp_write = (\<lambda>s. None),
     mmdc = (\<lambda>s. Completed 0 []), os_unlink = (\<lambda>p. Some ''file is in use'')\<rparr>"

text \<open>A graph with a node label outside ASCII.\<close>

definition accented :: string where
  "accented = ''graph TD'' @ [CHR 0x0A] @ ''A-->B[caf'' @ [CHR 0xE9] @ '']''"

text \<open>
  Two behaviours of the operating system during a probe that differ at most in the name
  given to the temporary file: the renderer does the same on every diagram text, writing
  fails on the same texts, and creating and removing the temporary file end alike.
\<close>

definition same_probe_behaviour :: "os_env \<Rightarrow> os_env \<Rightarrow> bool" where
  "same_probe_behaviour os os' \<longleftrightarrow>
     mmdc os = mmdc os' \<and> tmp_write os = tmp_write os' \<and>
     (case (tmp_create os, tmp_create os') of
        (Inl e, Inl e') \<Rightarrow> e = e'
      | (Inr t, Inr t') \<Rightarrow> os_unlink os t = os_unlink os' t'
      | _ \<Rightarrow> False)"

text \<open>There is no \<^verbatim>\<open>docs\<close> directory.\<close>

definition missing_docs :: env where
  "missing_docs = \<lparr>docs_exists = False, markdown_files = [], probe_os = (\<lambda>k. os_absent),
     report_write = None\<rparr>"

text \<open>The \<^verbatim>\<open>docs\<close> directory holds no markdown file.\<close>

definition empty_docs :: env where
  "empty_docs = \<lparr>docs_exists = True, markdown_files = [], probe_os = (\<lambda>k. os_absent),
     report_write = None\<rparr>"

text \<open>Two markdown files with three diagrams, and no renderer.\<close>

definition small_docs :: env where
  "small_docs = \<lparr>docs_exists = True, markdown_files = [twice_file, indented_file],
     probe_os = (\<lambda>k. os_absent), report_write = None\<rparr>"

text \<open>As \<^const>\<open>os_absent\<close>, with another temporary name.\<close>

definition os_other_name :: os_env where
  "os_other_name = \<lparr>tmp_create = Inr ''/tmp/tmpq7x2.mmd'', tmp_write = (\<lambda>s. None),
     mmdc = (\<lambda>s. FileNotFoundError), os_unlink = (\<lambda>p. None)\<rparr>"

text \<open>The same documentation in a later run.\<close>

definition small_docs_again :: env where
  "small_docs_again = \<lparr>docs_exists = True, markdown_files = [twice_file, indented_file],
     probe_os = (\<lambda>k. os_other_name), report_write = None\<rparr>"

text \<open>A disk that already holds a report.\<close>

definition used_world :: world where
  "used_world = \<lparr>disk = {results_file}, trace = [WriteReport results_file]\<rparr>"

text \<open>Readable documentation whose report cannot be written.\<close>

definition unwritable_docs :: env where
  "unwritable_docs = \<lparr>docs_exists = True, markdown_files = [twice_file],
     probe_os = (\<lambda>k. os_absent), report_write = Some ''Permission denied''\<rparr>"

text \<open>Removing the temporary file fails, and the message names the file.\<close>

definition os_stuck :: os_env where
  "os_stuck = \<lparr>tmp_create = Inr ''/tmp/tmpk3v9.mmd'', tmp_write = (\<lambda>s. None),
     mmdc = (\<lambda>s. Completed 0 []), os_unlink = (\<lambda>p. Some (''Permission denied: '' @ p))\<rparr>"

text \<open>As \<^const>\<open>os_stuck\<close>, with another temporary name.\<close>

definition os_stuck_again :: os_env where
  "os_stuck_again = \<lparr>tmp_create = Inr ''/tmp/tmpq7x2.mmd'', tmp_write = (\<lambda>s. None),
     mmdc = (\<lambda>s. Completed 0 []), os_unlink = (\<lambda>p. Some (''Permission denied: '' @ p))\<rparr>"

text \<open>One markdown file with one diagram, probed twice under these behaviours.\<close>

definition stuck_docs :: env where
  "stuck_docs = \<lparr>docs_exists = True, markdown_files = [indented_file],
     probe_os = (\<lambda>k. os_stuck), report_write = None\<rparr>"

definition stuck_docs_again :: env where
  "stuck_docs_again = \<lparr>docs_exists = True, markdown_files = [indented_file],
     probe_os = (\<lambda>k. os_stuck_again), report_write = None\<rparr>"

text \<open>The files of \<^const>\<open>small_docs\<close>, listed in the other order.\<close>

definition small_docs_reordered :: env where
  "small_docs_reordered = \<lparr>docs_exists = True, markdown_files = [indented_file, twice_file],
     probe_os = (\<lambda>k. os_absent), report_write = None\<rparr>"

section \<open>Properties\<close>

subsection \<open>The syntax validator\<close>

lemma validate_type: "snd (validate_mermaid_syntax c) = detect_type (take 3 (split_nl c))"
  by (simp add: validate_mermaid_syntax_def Let_def)

lemma validate_errors:
  "fst (validate_mermaid_syntax c) =
     bracket_errors c
     @ (if detect_type (take 3 (split_nl c)) = None then [''No valid diagram type found''] else [])
     @ (if \<not> list_ex (\<lambda>pattern. contains pattern c) arrow_patterns
            \<and> (case detect_type (take 3 (split_nl c)) of None \<Rightarrow> False | Some t \<Rightarrow> contains ''graph'' t)
         then [''Graph diagram missing arrow connections''] else [])
     @ style_errors (split_nl c)"
  by (simp add: validate_mermaid_syntax_def Let_def)

lemma style_errors_prefix:
  "e \<in> set (style_errors ls) \<Longrightarrow> prefix ''Invalid style syntax: '' e"
  by (auto simp: style_errors_def Let_def)




lemma bracket_errors_iff:
  "e \<in> set (bracket_errors c) \<longleftrightarrow>
     (count_char c CHR ''['' - count_char c CHR '']'' \<noteq> 0
        \<and> e = ''Unclosed brackets: '' @ py_str (count_char c CHR ''['' - count_char c CHR '']''))
   \<or> (count_char c CHR ''{'' - count_char c CHR ''}'' \<noteq> 0
        \<and> e = ''Unclosed braces: '' @ py_str (count_char c CHR ''{'' - count_char c CHR ''}''))
   \<or> (count_char c CHR ''('' - count_char c CHR '')'' \<noteq> 0
        \<and> e = ''Unclosed parentheses: '' @ py_str (count_char c CHR ''('' - count_char c CHR '')''))"
  by (simp add: bracket_errors_def Let_def) blast











lemma isspace_not_s: "isspace c \<Longrightarrow> c \<noteq> CHR ''s''"
  by (auto simp: isspace_def)

lemma re_match_style_first: "re_match style_pattern (c # s) \<Longrightarrow> c = CHR ''s''"
  by (simp add: style_pattern_def)

lemma lstrip_changes: "lstrip line \<noteq> line \<Longrightarrow> \<exists>c s. line = c # s \<and> isspace c"
  by (cases line) (auto simp: lstrip_def split: if_splits)

lemma style_errors_sub: "set (style_errors (split_nl c)) \<subseteq> set (fst (validate_mermaid_syntax c))"
  unfolding validate_errors by auto

text \<open>
  Claim C10. A line of the content whose trimmed text starts with \<open>style\<close> followed by a
  space, and which itself starts with whitespace, is reported as invalid style syntax
  (with its trimmed text), whether or not the trimmed text matches the style pattern:
  the line is selected by its trimmed text and matched unstripped.
\<close>

theorem indented_style_line_rejected:
  assumes "line \<in> set (split_nl c)" and "prefix ''style '' (strip line)" and "lstrip line \<noteq> line"
  shows "''Invalid style syntax: '' @ strip line \<in> set (fst (validate_mermaid_syntax c))"
proof -
  from assms(3) obtain ch s where l: "line = ch # s" and sp: "isspace ch"
    using lstrip_changes by blast
  have "\<not> re_match style_pattern line"
    using l sp isspace_not_s re_match_style_first by blast
  with assms(1,2) have "''Invalid style syntax: '' @ strip line \<in> set (style_errors (split_nl c))"
    by (auto simp: style_errors_def Let_def)
  then show ?thesis using style_errors_sub by blast
qed

theorem indented_style_line_rejected_witness:
  "''  style X fill:red'' \<in> set (split_nl indented_style)
   \<and> strip ''  style X fill:red'' = ''style X fill:red''
   \<and> re_match style_pattern (strip ''  style X fill:red'')
   \<and> ''Invalid style syntax: style X fill:red'' \<in> set (fst (validate_mermaid_syntax indented_style))"
proof -
  have a: "''  style X fill:red'' \<in> set (split_nl indented_style)"
    by (simp add: indented_style_def)
  have b: "strip ''  style X fill:red'' = ''style X fill:red''"
    by (simp add: strip_def lstrip_def rstrip_def isspace_def)
  have c: "re_match style_pattern ''style X fill:red''"
    by (simp add: style_pattern_def isspace_def isword_def)
  have d: "lstrip ''  style X fill:red'' \<noteq> ''  style X fill:red''"
    by (simp add: lstrip_def isspace_def)
  have e: "prefix ''style '' (strip ''  style X fill:red'')"
    unfolding b by simp
  from indented_style_line_rejected [OF a e d] a b c show ?thesis by simp
qed

lemma find_SomeD: "find P xs = Some x \<Longrightarrow> x \<in> set xs \<and> P x"
  by (induction xs) (auto split: if_splits)

lemma detect_type_None:
  "detect_type ls = None \<longleftrightarrow> (\<forall>l \<in> set ls. \<forall>v \<in> set valid_types. \<not> contains v l)"
  by (induction ls) (auto simp: find_None_iff dest: find_SomeD split: option.splits)

lemma detect_type_Some:
  "detect_type ls = Some t \<Longrightarrow> t \<in> set valid_types \<and> (\<exists>l \<in> set ls. contains t l)"
  by (induction ls) (auto dest: find_SomeD split: option.splits)

lemma no_type_error_iff:
  "''No valid diagram type found'' \<in> set (fst (validate_mermaid_syntax c))
     \<longleftrightarrow> snd (validate_mermaid_syntax c) = None"
proof -
  have a: "''No valid diagram type found'' \<notin> set (bracket_errors c)"
    by (simp add: bracket_errors_iff)
  have b: "''No valid diagram type found'' \<notin> set (style_errors (split_nl c))"
    using style_errors_prefix by fastforce
  show ?thesis
    unfolding validate_type validate_errors using a b by simp
qed

text \<open>
  Claim C2, as amended. Dialect detection looks at the first 3 lines of the content as
  split at newlines, blank lines included: two contents with the same first 3 lines get
  the same detected type; when no recognised header occurs in the first 3 lines the type
  is absent and "No valid diagram type found" is reported; when one occurs there, a
  recognised header found in one of these lines is the detected type and that error is
  not reported.
\<close>

theorem dialect_from_first_three_lines:
  "(take 3 (split_nl c) = take 3 (split_nl c') \<longrightarrow>
      snd (validate_mermaid_syntax c) = snd (validate_mermaid_syntax c'))
   \<and> ((\<forall>line \<in> set (take 3 (split_nl c)). \<forall>vtype \<in> set valid_types. \<not> contains vtype line) \<longrightarrow>
        snd (validate_mermaid_syntax c) = None
        \<and> ''No valid diagram type found'' \<in> set (fst (validate_mermaid_syntax c)))
   \<and> ((\<exists>line \<in> set (take 3 (split_nl c)). \<exists>vtype \<in> set valid_types. contains vtype line) \<longrightarrow>
        (\<exists>vtype \<in> set valid_types. snd (validate_mermaid_syntax c) = Some vtype
           \<and> (\<exists>line \<in> set (take 3 (split_nl c)). contains vtype line))
        \<and> ''No valid diagram type found'' \<notin> set (fst (validate_mermaid_syntax c)))"
proof (intro conjI impI)
  assume "take 3 (split_nl c) = take 3 (split_nl c')"
  then show "snd (validate_mermaid_syntax c) = snd (validate_mermaid_syntax c')"
    by (simp add: validate_type)
next
  assume "\<forall>line \<in> set (take 3 (split_nl c)). \<forall>vtype \<in> set valid_types. \<not> contains vtype line"
  then show "snd (validate_mermaid_syntax c) = None"
    by (simp only: validate_type detect_type_None)
  then show "''No valid diagram type found'' \<in> set (fst (validate_mermaid_syntax c))"
    by (simp only: no_type_error_iff)
next
  assume h: "\<exists>line \<in> set (take 3 (split_nl c)). \<exists>vtype \<in> set valid_types. contains vtype line"
  then have "detect_type (take 3 (split_nl c)) \<noteq> None"
    by (simp only: detect_type_None) blast
  then obtain t where t: "detect_type (take 3 (split_nl c)) = Some t" by blast
  from detect_type_Some [OF t] t
  show "\<exists>vtype \<in> set valid_types. snd (validate_mermaid_syntax c) = Some vtype
           \<and> (\<exists>line \<in> set (take 3 (split_nl c)). contains vtype line)"
    by (simp only: validate_type) blast
  from t show "''No valid diagram type found'' \<notin> set (fst (validate_mermaid_syntax c))"
    by (simp only: no_type_error_iff validate_type) simp
qed

theorem dialect_from_first_three_lines_witness:
  "take 3 (split_nl late_header) = [''%% title'', [], []]
   \<and> validate_mermaid_syntax late_header = ([''No valid diagram type found''], None)
   \<and> take 3 (split_nl scenario_B) = [''graph TD'', ''A[Start'', ''B(End)'']
   \<and> snd (validate_mermaid_syntax scenario_B) = Some ''graph TD''
   \<and> take 3 (split_nl (scenario_B @ CHR 0x0A # late_header)) = take 3 (split_nl scenario_B)
   \<and> snd (validate_mermaid_syntax (scenario_B @ CHR 0x0A # late_header)) = Some ''graph TD''"
proof -
  note t = dialect_from_first_three_lines
  have a: "take 3 (split_nl late_header) = [''%% title'', [], []]"
    by (simp add: late_header_def)
  have b: "take 3 (split_nl scenario_B) = [''graph TD'', ''A[Start'', ''B(End)'']"
    by (simp add: scenario_B_def)
  have c: "take 3 (split_nl (scenario_B @ CHR 0x0A # late_header)) = take 3 (split_nl scenario_B)"
    by (simp add: scenario_B_def late_header_def)
  have "\<forall>line \<in> set (take 3 (split_nl late_header)). \<forall>vtype \<in> set valid_types. \<not> contains vtype line"
    unfolding a by (simp add: valid_types_def)
  with t [of late_header late_header] have d: "snd (validate_mermaid_syntax late_header) = None"
    by blast
  have e: "fst (validate_mermaid_syntax late_header) = [''No valid diagram type found'']"
    by (simp add: validate_errors a valid_types_def late_header_def bracket_errors_def count_char_def
        arrow_patterns_def style_errors_def strip_def lstrip_def rstrip_def isspace_def)
  have "\<exists>line \<in> set (take 3 (split_nl scenario_B)). \<exists>vtype \<in> set valid_types. contains vtype line"
    unfolding b by (simp add: valid_types_def)
  with t [of scenario_B scenario_B] obtain v where
    v: "snd (validate_mermaid_syntax scenario_B) = Some v" by blast
  have f: "snd (validate_mermaid_syntax scenario_B) = Some ''graph TD''"
    by (simp add: validate_type b valid_types_def)
  from t [of "scenario_B @ CHR 0x0A # late_header" scenario_B] c f
  have g: "snd (validate_mermaid_syntax (scenario_B @ CHR 0x0A # late_header)) = Some ''graph TD''"
    by simp
  from a b c d e f g show ?thesis by (simp add: prod_eq_iff)
qed

text \<open>
  Claim C2, as stated, fails: behind a comment line and two blank lines the header is on
  the second of the first 3 non-empty lines, and no type is found.
\<close>

theorem dialect_nonempty_lines_counterexample:
  "first_nonempty_lines 3 late_header = [''%% title'', ''graph TD'', ''A-->B'']
   \<and> ''graph TD'' \<in> set valid_types
   \<and> contains ''graph TD'' ''graph TD''
   \<and> validate_mermaid_syntax late_header = ([''No valid diagram type found''], None)"
  by (simp add: first_nonempty_lines_def late_header_def valid_types_def
      validate_mermaid_syntax_def bracket_errors_def count_char_def
      arrow_patterns_def style_errors_def strip_def lstrip_def rstrip_def isspace_def)

subsection \<open>The extractor\<close>

lemma match_starts_bodies: "map snd (match_starts pos s) = findall_mermaid s"
  by (induction pos s rule: match_starts.induct) (auto simp: Let_def split: option.splits)

lemma rstrip_decomp: "s = rstrip s @ rev (takeWhile isspace (rev s))"
proof -
  have "rev (rstrip s @ rev (takeWhile isspace (rev s))) = rev s"
    by (simp add: rstrip_def)
  then show ?thesis by (simp only: rev_is_rev_conv)
qed

lemma strip_decomp:
  "\<exists>pre suf. s = pre @ strip s @ suf \<and> (\<forall>c \<in> set pre. isspace c) \<and> (\<forall>c \<in> set suf. isspace c)"
proof -
  let ?t = "lstrip s"
  have a: "s = takeWhile isspace s @ ?t" by (simp add: lstrip_def)
  have b: "?t = strip s @ rev (takeWhile isspace (rev ?t))"
    unfolding strip_def by (rule rstrip_decomp)
  have c: "\<forall>c \<in> set (takeWhile isspace s). isspace c"
    by (auto dest: set_takeWhileD)
  have d: "\<forall>c \<in> set (rev (takeWhile isspace (rev ?t))). isspace c"
    by (auto dest: set_takeWhileD)
  from a b have "s = takeWhile isspace s @ strip s @ rev (takeWhile isspace (rev ?t))"
    by simp
  with c d show ?thesis by blast
qed

lemma strip_ends:
  assumes "strip s \<noteq> []"
  shows "\<not> isspace (hd (strip s)) \<and> \<not> isspace (last (strip s))"
proof -
  let ?t = "lstrip s"
  have ne: "dropWhile isspace (rev ?t) \<noteq> []"
    using assms by (simp add: strip_def rstrip_def)
  then have l: "\<not> isspace (hd (dropWhile isspace (rev ?t)))"
    by (rule hd_dropWhile)
  have "last (strip s) = hd (dropWhile isspace (rev ?t))"
    using ne by (simp add: strip_def rstrip_def last_rev)
  with l have last: "\<not> isspace (last (strip s))" by simp
  have tne: "dropWhile isspace s \<noteq> []"
  proof
    assume "dropWhile isspace s = []"
    then have "?t = []" by (simp add: lstrip_def)
    with ne show False by simp
  qed
  then have h: "\<not> isspace (hd ?t)" unfolding lstrip_def by (rule hd_dropWhile)
  have "?t = strip s @ rev (takeWhile isspace (rev ?t))"
    unfolding strip_def by (rule rstrip_decomp)
  with assms have "hd ?t = hd (strip s)" by (metis hd_append2)
  with h last show ?thesis by simp
qed

lemma extract_contents:
  assumes "ftext f = Inr s"
  shows "map content (extract_mermaid_diagrams f) = map strip (findall_mermaid s)"
proof -
  have "map content (extract_mermaid_diagrams f)
      = map (strip \<circ> snd) (enumerate 0 (findall_mermaid s))"
    using assms by (simp add: extract_mermaid_diagrams_def split_def comp_def)
  also have "\<dots> = map strip (map snd (enumerate 0 (findall_mermaid s)))"
    by (simp only: map_map)
  also have "\<dots> = map strip (findall_mermaid s)"
    by simp
  finally show ?thesis .
qed

text \<open>
  Claim C4, as amended. The diagrams of a readable file correspond one to one, in order,
  to the bodies captured between the fences, and each content is its body with all
  leading and all trailing whitespace (newlines, spaces, tabs and the other characters
  of \<^verbatim>\<open>str.isspace\<close>) removed: the body is the content between two runs of whitespace,
  and a non-empty content neither starts nor ends with whitespace. Interior text is kept.
\<close>

theorem content_is_stripped_body:
  assumes "ftext f = Inr s"
  shows "length (extract_mermaid_diagrams f) = length (findall_mermaid s)
    \<and> (\<forall>i < length (findall_mermaid s).
         \<exists>pre suf. findall_mermaid s ! i = pre @ content (extract_mermaid_diagrams f ! i) @ suf
           \<and> (\<forall>c \<in> set pre. isspace c) \<and> (\<forall>c \<in> set suf. isspace c)
           \<and> (content (extract_mermaid_diagrams f ! i) \<noteq> [] \<longrightarrow>
                \<not> isspace (hd (content (extract_mermaid_diagrams f ! i)))
                \<and> \<not> isspace (last (content (extract_mermaid_diagrams f ! i)))))"
proof (intro conjI allI impI)
  from extract_contents [OF assms]
  have "length (map content (extract_mermaid_diagrams f)) = length (map strip (findall_mermaid s))"
    by simp
  then show len: "length (extract_mermaid_diagrams f) = length (findall_mermaid s)"
    by simp
  fix i assume i: "i < length (findall_mermaid s)"
  have "map content (extract_mermaid_diagrams f) ! i = map strip (findall_mermaid s) ! i"
    by (simp only: extract_contents [OF assms])
  with i len have c: "content (extract_mermaid_diagrams f ! i) = strip (findall_mermaid s ! i)"
    by simp
  from strip_decomp [of "findall_mermaid s ! i"] strip_ends [of "findall_mermaid s ! i"]
  show "\<exists>pre suf. findall_mermaid s ! i = pre @ content (extract_mermaid_diagrams f ! i) @ suf
           \<and> (\<forall>c \<in> set pre. isspace c) \<and> (\<forall>c \<in> set suf. isspace c)
           \<and> (content (extract_mermaid_diagrams f ! i) \<noteq> [] \<longrightarrow>
                \<not> isspace (hd (content (extract_mermaid_diagrams f ! i)))
                \<and> \<not> isspace (last (content (extract_mermaid_diagrams f ! i))))"
    unfolding c by blast
qed

lemma findall_indented: "findall_mermaid indented_text = [''  graph TD'']"
  by code_simp

theorem content_is_stripped_body_witness:
  "ftext indented_file = Inr indented_text
   \<and> findall_mermaid indented_text = [''  graph TD'']
   \<and> length (extract_mermaid_diagrams indented_file) = 1
   \<and> (\<exists>pre suf. ''  graph TD'' = pre @ content (extract_mermaid_diagrams indented_file ! 0) @ suf
         \<and> (\<forall>c \<in> set pre. isspace c) \<and> (\<forall>c \<in> set suf. isspace c))"
proof -
  have a: "ftext indented_file = Inr indented_text"
    by (simp add: indented_file_def)
  note t = content_is_stripped_body [OF a, unfolded findall_indented]
  from t have l: "length (extract_mermaid_diagrams indented_file) = 1" by simp
  from t have "\<exists>pre suf. [''  graph TD''] ! 0 = pre @ content (extract_mermaid_diagrams indented_file ! 0) @ suf
         \<and> (\<forall>c \<in> set pre. isspace c) \<and> (\<forall>c \<in> set suf. isspace c)"
    by fastforce
  with a l findall_indented show ?thesis by simp
qed

text \<open>
  Claim C4, as stated, fails: the two spaces before the first word of the body are not
  kept, although stripping one newline at each end keeps them.
\<close>

theorem content_keeps_indentation_counterexample:
  "findall_mermaid indented_text = [''  graph TD'']
   \<and> strip_newline_once ''  graph TD'' = ''  graph TD''
   \<and> strip_newline_once (CHR 0x0A # ''  graph TD'' @ [CHR 0x0A]) = ''  graph TD''
   \<and> map content (extract_mermaid_diagrams indented_file) = [''graph TD'']"
proof (intro conjI)
  show "findall_mermaid indented_text = [''  graph TD'']" by code_simp
  show "strip_newline_once ''  graph TD'' = ''  graph TD''" by code_simp
  show "strip_newline_once (CHR 0x0A # ''  graph TD'' @ [CHR 0x0A]) = ''  graph TD''" by code_simp
  show "map content (extract_mermaid_diagrams indented_file) = [''graph TD'']" by code_simp
qed

text \<open>
  Claim C3 against the code: in a file holding the same diagram in two blocks, both
  diagrams get line 2, since the line is counted up to the first place where the body
  text occurs in the file; the second block starts at line 7.
\<close>

theorem line_number_of_repeated_block:
  "findall_mermaid twice_text = [''graph TD'' @ [CHR 0x0A] @ ''A-->B'', ''graph TD'' @ [CHR 0x0A] @ ''A-->B'']
   \<and> map line_number (extract_mermaid_diagrams twice_file) = [2, 2]
   \<and> spec_line_numbers twice_text = [2, 7]"
proof (intro conjI)
  show "findall_mermaid twice_text = [''graph TD'' @ [CHR 0x0A] @ ''A-->B'', ''graph TD'' @ [CHR 0x0A] @ ''A-->B'']"
    by code_simp
  show "map line_number (extract_mermaid_diagrams twice_file) = [2, 2]" by code_simp
  show "spec_line_numbers twice_text = [2, 7]" by code_simp
qed

subsection \<open>The render probe\<close>

lemma probe_result:
  "fst (test_mermaid_rendering os w c) =
     (case tmp_create os of
        Inl e \<Rightarrow> (Some False, ''Rendering test error: '' @ e)
      | Inr t \<Rightarrow>
          (case tmp_write os c of
             Some e \<Rightarrow> (Some False, ''Rendering test error: '' @ e)
           | None \<Rightarrow>
               (case os_unlink os t of
                  Some e \<Rightarrow> (Some False, ''Rendering test error: '' @ e)
                | None \<Rightarrow>
                    (case mmdc os c of
                       Completed rc err \<Rightarrow>
                         if rc = 0 then (Some True, ''Rendered successfully'')
                         else (Some False, ''Rendering failed: '' @ err)
                     | TimeoutExpired \<Rightarrow> (None, ''Mermaid CLI not available'')
                     | FileNotFoundError \<Rightarrow> (None, ''Mermaid CLI not available'')
                     | OtherError e \<Rightarrow> (Some False, ''Rendering test error: '' @ e)))))"
  by (simp add: test_mermaid_rendering_def Let_def split: sum.splits option.splits run_outcome.splits)

lemma probe_disk:
  "disk (snd (test_mermaid_rendering os w c)) =
     (case tmp_create os of
        Inl e \<Rightarrow> disk w
      | Inr t \<Rightarrow>
          (case tmp_write os c of
             Some e \<Rightarrow> insert t (disk w)
           | None \<Rightarrow>
               (case os_unlink os t of
                  Some e \<Rightarrow> insert t (disk w)
                | None \<Rightarrow> disk w - {t})))"
  by (simp add: test_mermaid_rendering_def record_call_def Let_def split: sum.splits option.splits)

lemma probe_trace:
  "trace (snd (test_mermaid_rendering os w c)) = trace w @
     (case tmp_create os of
        Inl e \<Rightarrow> [NamedTemporaryFile]
      | Inr t \<Rightarrow>
          (case tmp_write os c of
             Some e \<Rightarrow> [NamedTemporaryFile, Write t c]
           | None \<Rightarrow> [NamedTemporaryFile, Write t c,
                Run [''mmdc'', ''-i'', t, ''-o'', ''/dev/null'', ''--quiet''] 10, Unlink t]))"
  by (simp add: test_mermaid_rendering_def record_call_def Let_def split: sum.splits option.splits)

lemma probe_shapes:
  "(fst (test_mermaid_rendering os w c) = (Some True, ''Rendered successfully''))
   \<or> (\<exists>err. fst (test_mermaid_rendering os w c) = (Some False, ''Rendering failed: '' @ err))
   \<or> (fst (test_mermaid_rendering os w c) = (None, ''Mermaid CLI not available''))
   \<or> (\<exists>e. fst (test_mermaid_rendering os w c) = (Some False, ''Rendering test error: '' @ e))"
  unfolding probe_result
  by (simp split: sum.splits option.splits run_outcome.splits)

subsection \<open>The orchestrator\<close>

lemma validate_one_eq:
  "validate_one os d (t, rs, w) =
     (t + int (length (fst (validate_mermaid_syntax (content d))))
        + (if fst (fst (test_mermaid_rendering os w (content d))) = Some False then 1 else 0),
      rs @ [\<lparr>r_id = d_id d, r_file = d_file d,
              r_type = snd (validate_mermaid_syntax (content d)),
              syntax_errors = fst (validate_mermaid_syntax (content d)),
              render_test = fst (fst (test_mermaid_rendering os w (content d))),
              render_message = Some (snd (fst (test_mermaid_rendering os w (content d))))\<rparr>],
      snd (test_mermaid_rendering os w (content d)))"
  by (simp add: validate_one_def Let_def split: prod.splits)

lemma total_error_count_snoc:
  "total_error_count (rs @ [r]) =
     total_error_count rs + int (length (syntax_errors r))
       + (if render_test r = Some False then 1 else 0)"
  by (simp add: total_error_count_def)

lemma validate_one_total:
  "fst (validate_one os d st) - total_error_count (fst (snd (validate_one os d st)))
     = fst st - total_error_count (fst (snd st))"
  by (cases st) (simp add: validate_one_eq total_error_count_snoc)

lemma validate_loop_total:
  "fst (validate_loop oss k ds st) - total_error_count (fst (snd (validate_loop oss k ds st)))
     = fst st - total_error_count (fst (snd st))"
  by (induction ds arbitrary: k st) (simp_all add: validate_one_total)

lemma validate_one_length:
  "length (fst (snd (validate_one os d st))) = Suc (length (fst (snd st)))"
  by (cases st) (simp add: validate_one_eq)

lemma validate_loop_length:
  "length (fst (snd (validate_loop oss k ds st))) = length (fst (snd st)) + length ds"
  by (induction ds arbitrary: k st) (simp_all add: validate_one_length)

lemma exit_status_bool: "exit_status (Returned (Some b)) = 0 \<longleftrightarrow> b"
  by (cases b) simp_all

lemma main_discovery_failed:
  "\<not> docs_exists e \<or> markdown_files e = [] \<Longrightarrow>
     main e w = \<lparr>outcome = Returned None, total_errors = None, results = [], report = None, final = w\<rparr>"
  by (auto simp: main_def)

lemma main_passed:
  assumes "docs_exists e" and "markdown_files e \<noteq> []"
  shows "total_errors (main e w) = Some (total_error_count (results (main e w)))"
    and "report_write e = None \<Longrightarrow>
           outcome (main e w) = Returned (Some (total_error_count (results (main e w)) = 0))"
    and "length (results (main e w)) = length (concat (map extract_mermaid_diagrams (markdown_files e)))"
proof -
  let ?w = "w\<lparr>trace := trace w @ map (\<lambda>f. ReadFile (fpath f)) (markdown_files e)\<rparr>"
  let ?ds = "concat (map extract_mermaid_diagrams (markdown_files e))"
  let ?st = "validate_loop (probe_os e) 0 ?ds (0, [], ?w)"
  have t: "fst ?st = total_error_count (fst (snd ?st))"
    using validate_loop_total [of "probe_os e" 0 ?ds "(0, [], ?w)"]
    by (simp add: total_error_count_def)
  have l: "length (fst (snd ?st)) = length ?ds"
    using validate_loop_length [of "probe_os e" 0 ?ds "(0, [], ?w)"] by simp
  have r: "results (main e w) = fst (snd ?st)"
    using assms by (simp add: main_def Let_def split: prod.splits option.splits)
  have te: "total_errors (main e w) = Some (fst ?st)"
    using assms by (simp add: main_def Let_def split: prod.splits option.splits)
  show "total_errors (main e w) = Some (total_error_count (results (main e w)))"
    using t r te by simp
  show "length (results (main e w)) = length ?ds"
    using l r by simp
  assume "report_write e = None"
  then have "outcome (main e w) = Returned (Some (fst ?st = 0))"
    using assms by (simp add: main_def Let_def split: prod.splits)
  then show "outcome (main e w) = Returned (Some (total_error_count (results (main e w)) = 0))"
    using t r by simp
qed

text \<open>
  Claim C7. When the documentation directory does not exist, or holds no markdown file,
  the run ends with exit status 1, builds no validation result, writes no report, and
  leaves the world as it was: no file is read, no probe is made, nothing is written.
\<close>

theorem discovery_failure_stops_run:
  assumes "\<not> docs_exists e \<or> markdown_files e = []"
  shows "exit_status (outcome (main e w)) = 1
    \<and> results (main e w) = []
    \<and> report (main e w) = None
    \<and> final (main e w) = w"
  by (simp add: main_discovery_failed [OF assms])

theorem discovery_failure_stops_run_witness:
  "\<not> docs_exists missing_docs
   \<and> exit_status (outcome (main missing_docs clean_world)) = 1
   \<and> report (main missing_docs clean_world) = None
   \<and> trace (final (main missing_docs clean_world)) = []
   \<and> docs_exists empty_docs \<and> markdown_files empty_docs = []
   \<and> exit_status (outcome (main empty_docs used_world)) = 1
   \<and> report (main empty_docs used_world) = None
   \<and> final (main empty_docs used_world) = used_world"
proof -
  have a: "\<not> docs_exists missing_docs \<or> markdown_files missing_docs = []"
    by (simp add: missing_docs_def)
  have b: "\<not> docs_exists empty_docs \<or> markdown_files empty_docs = []"
    by (simp add: empty_docs_def)
  from discovery_failure_stops_run [OF a, of clean_world]
    discovery_failure_stops_run [OF b, of used_world]
  show ?thesis by (simp add: missing_docs_def empty_docs_def clean_world_def)
qed

text \<open>
  Claim C1, as amended. In every run that passes discovery (the directory exists and
  holds a markdown file), the final \<^verbatim>\<open>total_errors\<close> is the sum of the lengths of all
  \<^verbatim>\<open>syntax_errors\<close> plus one for each result whose \<^verbatim>\<open>render_test\<close> is false, an
  indeterminate \<^verbatim>\<open>render_test\<close> adding nothing; and when writing the report does not
  raise, the exit status is 0 if and only if this count is zero.
\<close>

theorem exit_status_counts_errors:
  assumes "docs_exists e" and "markdown_files e \<noteq> []"
  shows "total_errors (main e w) = Some (total_error_count (results (main e w)))
    \<and> (report_write e = None \<longrightarrow>
          (exit_status (outcome (main e w)) = 0 \<longleftrightarrow> total_error_count (results (main e w)) = 0))"
proof (intro conjI impI)
  show "total_errors (main e w) = Some (total_error_count (results (main e w)))"
    using assms by (rule main_passed(1))
  assume "report_write e = None"
  with assms have "outcome (main e w) = Returned (Some (total_error_count (results (main e w)) = 0))"
    by (rule main_passed(2))
  then show "exit_status (outcome (main e w)) = 0 \<longleftrightarrow> total_error_count (results (main e w)) = 0"
    by (simp only: exit_status_bool)
qed

lemma small_docs_run:
  "map syntax_errors (results (main small_docs clean_world))
     = [[], [], [''Graph diagram missing arrow connections'']]"
  "map render_test (results (main small_docs clean_world)) = [None, None, None]"
  "outcome (main small_docs clean_world) = Returned (Some False)"
  by code_simp+

theorem exit_status_counts_errors_witness:
  "docs_exists small_docs \<and> markdown_files small_docs \<noteq> [] \<and> report_write small_docs = None
   \<and> map render_test (results (main small_docs clean_world)) = [None, None, None]
   \<and> total_errors (main small_docs clean_world) = Some 1
   \<and> exit_status (outcome (main small_docs clean_world)) = 1"
proof -
  have a: "docs_exists small_docs" and b: "markdown_files small_docs \<noteq> []"
    and c: "report_write small_docs = None"
    by (simp_all add: small_docs_def)
  have "total_error_count (results (main small_docs clean_world))
      = (\<Sum>es\<leftarrow>map syntax_errors (results (main small_docs clean_world)). int (length es))
        + int (length (filter (\<lambda>t. t = Some False) (map render_test (results (main small_docs clean_world)))))"
    by (simp add: total_error_count_def comp_def filter_map)
  then have t: "total_error_count (results (main small_docs clean_world)) = 1"
    unfolding small_docs_run by simp
  from exit_status_counts_errors [OF a b, of clean_world] t
  have "total_errors (main small_docs clean_world) = Some 1" by simp
  with a b c small_docs_run show ?thesis by simp
qed

text \<open>
  Claim C1, as stated, fails for a run without a documentation directory: there is no
  validation result, so the count is zero, and the exit status is 1.
\<close>

theorem exit_status_counts_errors_counterexample:
  "total_error_count (results (main missing_docs clean_world)) = 0
   \<and> exit_status (outcome (main missing_docs clean_world)) = 1"
  by (simp add: main_def missing_docs_def total_error_count_def)

text \<open>
  When writing the report raises, the run ends with status 1 even if nothing was
  counted: the exception leaves \<^verbatim>\<open>main\<close>.
\<close>

lemma unwritable_report_run:
  "total_errors (main unwritable_docs clean_world) = Some 0"
  "outcome (main unwritable_docs clean_world) = Raised ''Permission denied''"
  "exit_status (outcome (main unwritable_docs clean_world)) = 1"
  "report (main unwritable_docs clean_world) = None"
  by code_simp+

lemma probe_result_any_world:
  "fst (test_mermaid_rendering os w c) = fst (test_mermaid_rendering os v c)"
  by (simp only: probe_result)

lemma validate_loop_results:
  "fst (snd (validate_loop oss k ds (t, rs, w))) =
     rs @ map (\<lambda>(i, d).
              \<lparr>r_id = d_id d, r_file = d_file d,
               r_type = snd (validate_mermaid_syntax (content d)),
               syntax_errors = fst (validate_mermaid_syntax (content d)),
               render_test = fst (fst (test_mermaid_rendering (oss i) v (content d))),
               render_message = Some (snd (fst (test_mermaid_rendering (oss i) v (content d))))\<rparr>)
            (enumerate k ds)"
proof (induction ds arbitrary: k t rs w)
  case Nil
  show ?case by simp
next
  case (Cons d ds)
  have p: "fst (test_mermaid_rendering (oss k) w (content d))
      = fst (test_mermaid_rendering (oss k) v (content d))"
    by (rule probe_result_any_world)
  show ?case
    by (simp add: validate_one_eq Cons.IH p)
qed

lemma main_results:
  assumes "docs_exists e" and "markdown_files e \<noteq> []"
  shows "results (main e w) =
     map (\<lambda>(i, d).
              \<lparr>r_id = d_id d, r_file = d_file d,
               r_type = snd (validate_mermaid_syntax (content d)),
               syntax_errors = fst (validate_mermaid_syntax (content d)),
               render_test = fst (fst (test_mermaid_rendering (probe_os e i) v (content d))),
               render_message = Some (snd (fst (test_mermaid_rendering (probe_os e i) v (content d))))\<rparr>)
         (enumerate 0 (concat (map extract_mermaid_diagrams (markdown_files e))))"
proof -
  let ?w = "w\<lparr>trace := trace w @ map (\<lambda>f. ReadFile (fpath f)) (markdown_files e)\<rparr>"
  let ?ds = "concat (map extract_mermaid_diagrams (markdown_files e))"
  have r: "results (main e w) = fst (snd (validate_loop (probe_os e) 0 ?ds (0, [], ?w)))"
    using assms by (simp add: main_def Let_def split: prod.splits option.splits)
  show ?thesis
    unfolding r validate_loop_results [where v = v] by simp
qed

lemma main_result_nth:
  assumes "docs_exists e" and "markdown_files e \<noteq> []"
    and "i < length (concat (map extract_mermaid_diagrams (markdown_files e)))"
  shows "results (main e w) ! i =
     \<lparr>r_id = d_id (concat (map extract_mermaid_diagrams (markdown_files e)) ! i),
      r_file = d_file (concat (map extract_mermaid_diagrams (markdown_files e)) ! i),
      r_type = snd (validate_mermaid_syntax
                 (content (concat (map extract_mermaid_diagrams (markdown_files e)) ! i))),
      syntax_errors = fst (validate_mermaid_syntax
                 (content (concat (map extract_mermaid_diagrams (markdown_files e)) ! i))),
      render_test = fst (fst (test_mermaid_rendering (probe_os e i) v
                 (content (concat (map extract_mermaid_diagrams (markdown_files e)) ! i)))),
      render_message = Some (snd (fst (test_mermaid_rendering (probe_os e i) v
                 (content (concat (map extract_mermaid_diagrams (markdown_files e)) ! i)))))\<rparr>"
  unfolding main_results [OF assms(1,2), where v = v]
  using assms(3) by (simp add: nth_enumerate_eq)

lemma report_when_written:
  assumes "docs_exists e" and "markdown_files e \<noteq> []" and "report_write e = None"
  shows "report (main e w) = Some (results (main e w))"
  using assms by (simp add: main_def Let_def split: prod.splits)

lemma same_probe_result:
  assumes "same_probe_behaviour os os'"
  shows "fst (test_mermaid_rendering os w c) = fst (test_mermaid_rendering os' w' c)"
  using assms unfolding probe_result same_probe_behaviour_def
  by (auto split: sum.splits option.splits run_outcome.splits)

lemma same_validate_one:
  assumes "same_probe_behaviour os os'"
  shows "fst (validate_one os d (t, rs, w)) = fst (validate_one os' d (t, rs, w'))
    \<and> fst (snd (validate_one os d (t, rs, w))) = fst (snd (validate_one os' d (t, rs, w')))"
  unfolding validate_one_eq using same_probe_result [OF assms, of w "content d" w'] by simp

lemma same_validate_loop:
  assumes "\<forall>k. same_probe_behaviour (oss k) (oss' k)"
  shows "fst (validate_loop oss k ds (t, rs, w)) = fst (validate_loop oss' k ds (t, rs, w'))
    \<and> fst (snd (validate_loop oss k ds (t, rs, w))) = fst (snd (validate_loop oss' k ds (t, rs, w')))"
proof (induction ds arbitrary: k t rs w w')
  case Nil
  show ?case by simp
next
  case (Cons d ds)
  from assms have s: "same_probe_behaviour (oss k) (oss' k)" by blast
  obtain t1 rs1 w1 where a: "validate_one (oss k) d (t, rs, w) = (t1, rs1, w1)"
    by (cases "validate_one (oss k) d (t, rs, w)") auto
  obtain t2 rs2 w2 where b: "validate_one (oss' k) d (t, rs, w') = (t2, rs2, w2)"
    by (cases "validate_one (oss' k) d (t, rs, w')") auto
  from same_validate_one [OF s, of d t rs w w'] a b have "t1 = t2" "rs1 = rs2" by simp_all
  with a b Cons.IH [of "Suc k" t1 rs1 w1 w2] show ?case by simp
qed

text \<open>
  Claim C9, as amended. Two runs over the same list of markdown files, in the same
  order and with the same contents, in which the renderer gives the same outcome on
  every diagram text, writing the temporary file fails on the same texts, and creating
  and removing the temporary file either succeed in both runs or raise with the same
  exception text, build the same ordered list of validation results, write the same
  report and end alike, whatever the names of the temporary files and whatever was on
  disk before.
\<close>

theorem report_is_deterministic:
  assumes "docs_exists e = docs_exists e'"
    and "markdown_files e = markdown_files e'"
    and "report_write e = report_write e'"
    and "\<forall>k. same_probe_behaviour (probe_os e k) (probe_os e' k)"
  shows "report (main e w) = report (main e' w')
    \<and> results (main e w) = results (main e' w')
    \<and> outcome (main e w) = outcome (main e' w')"
proof (cases "docs_exists e \<and> markdown_files e \<noteq> []")
  case False
  with assms(1,2) have "\<not> docs_exists e \<or> markdown_files e = []"
    and "\<not> docs_exists e' \<or> markdown_files e' = []" by auto
  then show ?thesis by (simp add: main_discovery_failed)
next
  case True
  let ?ds = "concat (map extract_mermaid_diagrams (markdown_files e))"
  let ?rd = "\<lambda>v. v\<lparr>trace := trace v @ map (\<lambda>f. ReadFile (fpath f)) (markdown_files e)\<rparr>"
  obtain t rs v where a: "validate_loop (probe_os e) 0 ?ds (0, [], ?rd w) = (t, rs, v)"
    by (cases "validate_loop (probe_os e) 0 ?ds (0, [], ?rd w)") auto
  obtain t' rs' v' where b: "validate_loop (probe_os e') 0 ?ds (0, [], ?rd w') = (t', rs', v')"
    by (cases "validate_loop (probe_os e') 0 ?ds (0, [], ?rd w')") auto
  from same_validate_loop [OF assms(4), of 0 ?ds 0 "[]" "?rd w" "?rd w'"] a b
  have eq: "t = t'" "rs = rs'" by simp_all
  from True assms(1,2) have p: "docs_exists e" "markdown_files e \<noteq> []"
    "docs_exists e'" "markdown_files e' \<noteq> []" by auto
  have m: "report (main e w) = (case report_write e of Some ex \<Rightarrow> None | None \<Rightarrow> Some rs)"
    "results (main e w) = rs"
    "outcome (main e w) = (case report_write e of Some ex \<Rightarrow> Raised ex | None \<Rightarrow> Returned (Some (t = 0)))"
    using p(1,2) a by (simp_all add: main_def Let_def split: option.splits)
  have m': "report (main e' w') = (case report_write e' of Some ex \<Rightarrow> None | None \<Rightarrow> Some rs')"
    "results (main e' w') = rs'"
    "outcome (main e' w') = (case report_write e' of Some ex \<Rightarrow> Raised ex | None \<Rightarrow> Returned (Some (t' = 0)))"
    using p(3,4) b assms(2) by (simp_all add: main_def Let_def split: option.splits)
  from m m' eq assms(3) show ?thesis by (simp split: option.splits)
qed

theorem report_is_deterministic_witness:
  "docs_exists small_docs = docs_exists small_docs_again
   \<and> markdown_files small_docs = markdown_files small_docs_again
   \<and> report_write small_docs = report_write small_docs_again
   \<and> same_probe_behaviour os_absent os_other_name
   \<and> tmp_create os_absent \<noteq> tmp_create os_other_name
   \<and> clean_world \<noteq> used_world
   \<and> report (main small_docs clean_world) = report (main small_docs_again used_world)
   \<and> report (main small_docs clean_world) \<noteq> None"
proof -
  have a: "docs_exists small_docs = docs_exists small_docs_again"
    and b: "markdown_files small_docs = markdown_files small_docs_again"
    and c: "report_write small_docs = report_write small_docs_again"
    by (simp_all add: small_docs_def small_docs_again_def)
  have s: "same_probe_behaviour os_absent os_other_name"
    by (simp add: same_probe_behaviour_def os_absent_def os_other_name_def)
  then have d: "\<forall>k. same_probe_behaviour (probe_os small_docs k) (probe_os small_docs_again k)"
    by (simp add: small_docs_def small_docs_again_def)
  have n: "tmp_create os_absent \<noteq> tmp_create os_other_name"
    by (simp add: os_absent_def os_other_name_def)
  have u: "clean_world \<noteq> used_world"
    by (simp add: clean_world_def used_world_def)
  have r: "report (main small_docs clean_world) \<noteq> None"
    by (simp add: main_def small_docs_def Let_def split: prod.splits)
  from report_is_deterministic [OF a b c d, of clean_world used_world] a b c s n u r
  show ?thesis by simp
qed

text \<open>
  Claim C9, as stated, fails. With the same file, the same renderer and the same
  file-system behaviour, two runs whose temporary files get different names write
  different reports when removing the file raises, since the exception text names the
  file and becomes the render message. And the same set of files listed in another
  order gives the records in another order.
\<close>

theorem report_not_deterministic_counterexample:
  "markdown_files stuck_docs = markdown_files stuck_docs_again
   \<and> mmdc os_stuck = mmdc os_stuck_again
   \<and> tmp_write os_stuck = tmp_write os_stuck_again
   \<and> os_unlink os_stuck = os_unlink os_stuck_again
   \<and> map render_message (results (main stuck_docs clean_world))
       = [Some ''Rendering test error: Permission denied: /tmp/tmpk3v9.mmd'']
   \<and> map render_message (results (main stuck_docs_again clean_world))
       = [Some ''Rendering test error: Permission denied: /tmp/tmpq7x2.mmd'']
   \<and> report (main stuck_docs clean_world) \<noteq> report (main stuck_docs_again clean_world)
   \<and> set (markdown_files small_docs_reordered) = set (markdown_files small_docs)
   \<and> probe_os small_docs_reordered = probe_os small_docs
   \<and> map r_id (results (main small_docs clean_world)) = [''a.md_0'', ''a.md_1'', ''b.md_0'']
   \<and> map r_id (results (main small_docs_reordered clean_world)) = [''b.md_0'', ''a.md_0'', ''a.md_1'']
   \<and> report (main small_docs clean_world) \<noteq> report (main small_docs_reordered clean_world)"
proof -
  have a: "markdown_files stuck_docs = markdown_files stuck_docs_again"
    by (simp add: stuck_docs_def stuck_docs_again_def)
  have b: "mmdc os_stuck = mmdc os_stuck_again" "tmp_write os_stuck = tmp_write os_stuck_again"
    "os_unlink os_stuck = os_unlink os_stuck_again"
    by (simp_all add: os_stuck_def os_stuck_again_def)
  have c: "map render_message (results (main stuck_docs clean_world))
       = [Some ''Rendering test error: Permission denied: /tmp/tmpk3v9.mmd'']"
    by code_simp
  have d: "map render_message (results (main stuck_docs_again clean_world))
       = [Some ''Rendering test error: Permission denied: /tmp/tmpq7x2.mmd'']"
    by code_simp
  from c d have "results (main stuck_docs clean_world) \<noteq> results (main stuck_docs_again clean_world)"
    by auto
  moreover have "report (main stuck_docs clean_world) = Some (results (main stuck_docs clean_world))"
    by (rule report_when_written) (simp_all add: stuck_docs_def)
  moreover have "report (main stuck_docs_again clean_world)
      = Some (results (main stuck_docs_again clean_world))"
    by (rule report_when_written) (simp_all add: stuck_docs_again_def)
  ultimately have e: "report (main stuck_docs clean_world) \<noteq> report (main stuck_docs_again clean_world)"
    by simp
  have f: "set (markdown_files small_docs_reordered) = set (markdown_files small_docs)"
    by (auto simp: small_docs_def small_docs_reordered_def)
  have g: "probe_os small_docs_reordered = probe_os small_docs"
    by (simp add: small_docs_def small_docs_reordered_def)
  have h: "map r_id (results (main small_docs clean_world)) = [''a.md_0'', ''a.md_1'', ''b.md_0'']"
    by code_simp
  have i: "map r_id (results (main small_docs_reordered clean_world)) = [''b.md_0'', ''a.md_0'', ''a.md_1'']"
    by code_simp
  from h i have "results (main small_docs clean_world) \<noteq> results (main small_docs_reordered clean_world)"
    by auto
  moreover have "report (main small_docs clean_world) = Some (results (main small_docs clean_world))"
    by (rule report_when_written) (simp_all add: small_docs_def)
  moreover have "report (main small_docs_reordered clean_world)
      = Some (results (main small_docs_reordered clean_world))"
    by (rule report_when_written) (simp_all add: small_docs_reordered_def)
  ultimately have j: "report (main small_docs clean_world) \<noteq> report (main small_docs_reordered clean_world)"
    by simp
  from a b c d e f g h i j show ?thesis by blast
qed

subsection \<open>Outcomes of the render probe\<close>

lemma probe_exactly_one:
  "(let r = fst (test_mermaid_rendering os w c);
        A = (r = (Some True, ''Rendered successfully''));
        B = (fst r = Some False \<and> prefix ''Rendering failed: '' (snd r));
        C = (r = (None, ''Mermaid CLI not available''));
        D = (fst r = Some False \<and> prefix ''Rendering test error: '' (snd r))
    in (A \<or> B \<or> C \<or> D) \<and> \<not> (A \<and> B) \<and> \<not> (A \<and> C) \<and> \<not> (A \<and> D)
       \<and> \<not> (B \<and> C) \<and> \<not> (B \<and> D) \<and> \<not> (C \<and> D))"
  unfolding probe_result Let_def
  by (simp split: sum.splits option.splits run_outcome.splits)

lemma probe_clean:
  assumes "tmp_create os = Inr t" and "tmp_write os c = None" and "os_unlink os t = None"
  shows "fst (test_mermaid_rendering os w c) =
     (case mmdc os c of
        Completed rc err \<Rightarrow>
          if rc = 0 then (Some True, ''Rendered successfully'')
          else (Some False, ''Rendering failed: '' @ err)
      | TimeoutExpired \<Rightarrow> (None, ''Mermaid CLI not available'')
      | FileNotFoundError \<Rightarrow> (None, ''Mermaid CLI not available'')
      | OtherError e \<Rightarrow> (Some False, ''Rendering test error: '' @ e))"
  unfolding probe_result using assms by simp

lemma probe_timeout:
  assumes "tmp_create os = Inr t" and "tmp_write os c = None"
  shows "Run [''mmdc'', ''-i'', t, ''-o'', ''/dev/null'', ''--quiet''] 10
           \<in> set (trace (snd (test_mermaid_rendering os w c)))"
  unfolding probe_trace using assms by simp

lemma temp_file_removed_after_run:
  assumes "tmp_create os = Inr t" and "tmp_write os c = None" and "os_unlink os t = None"
  shows "t \<notin> disk (snd (test_mermaid_rendering os w c))"
  unfolding probe_disk using assms by simp

text \<open>
  Claim C6, as amended. The probe always returns, and its result is exactly one of four
  kinds, with the messages as the script spells them. When the temporary file is
  created, written and removed without an exception: a renderer that exits with status
  0 gives true and "Rendered successfully"; one that exits with another status gives
  false and "Rendering failed: " followed by its standard error; a renderer that is not
  installed or runs into the timeout gives an indeterminate result and "Mermaid CLI not
  available"; any other exception of the call gives false and "Rendering test error: "
  followed by its message. An exception while creating, writing or removing the
  temporary file gives false and "Rendering test error: " with its message, whatever
  the renderer did. The renderer is started with a timeout of 10. Whatever the probes
  return, a run that passes discovery builds for every diagram, in order, one result
  holding the diagram's id and file, the validator's findings and the probe's result.
\<close>

theorem render_probe_outcomes:
  "(tmp_create os = Inr t \<and> tmp_write os c = None \<and> os_unlink os t = None \<longrightarrow>
      (mmdc os c = Completed 0 err \<longrightarrow>
         fst (test_mermaid_rendering os w c) = (Some True, ''Rendered successfully''))
    \<and> (mmdc os c = Completed rc err \<and> rc \<noteq> 0 \<longrightarrow>
         fst (test_mermaid_rendering os w c) = (Some False, ''Rendering failed: '' @ err))
    \<and> (mmdc os c = FileNotFoundError \<or> mmdc os c = TimeoutExpired \<longrightarrow>
         fst (test_mermaid_rendering os w c) = (None, ''Mermaid CLI not available''))
    \<and> (mmdc os c = OtherError e \<longrightarrow>
         fst (test_mermaid_rendering os w c) = (Some False, ''Rendering test error: '' @ e)))
   \<and> (tmp_create os = Inl e \<longrightarrow>
         fst (test_mermaid_rendering os w c) = (Some False, ''Rendering test error: '' @ e))
   \<and> (tmp_create os = Inr t \<and> tmp_write os c = Some e \<longrightarrow>
         fst (test_mermaid_rendering os w c) = (Some False, ''Rendering test error: '' @ e))
   \<and> (tmp_create os = Inr t \<and> tmp_write os c = None \<and> os_unlink os t = Some e \<longrightarrow>
         fst (test_mermaid_rendering os w c) = (Some False, ''Rendering test error: '' @ e))
   \<and> (tmp_create os = Inr t \<and> tmp_write os c = None \<longrightarrow>
         Run [''mmdc'', ''-i'', t, ''-o'', ''/dev/null'', ''--quiet''] 10
           \<in> set (trace (snd (test_mermaid_rendering os w c))))
   \<and> (let r = fst (test_mermaid_rendering os w c);
           A = (r = (Some True, ''Rendered successfully''));
           B = (fst r = Some False \<and> prefix ''Rendering failed: '' (snd r));
           C = (r = (None, ''Mermaid CLI not available''));
           D = (fst r = Some False \<and> prefix ''Rendering test error: '' (snd r))
       in (A \<or> B \<or> C \<or> D) \<and> \<not> (A \<and> B) \<and> \<not> (A \<and> C) \<and> \<not> (A \<and> D)
          \<and> \<not> (B \<and> C) \<and> \<not> (B \<and> D) \<and> \<not> (C \<and> D))
   \<and> (docs_exists env \<and> markdown_files env \<noteq> [] \<longrightarrow>
         length (results (main env w')) = length (concat (map extract_mermaid_diagrams (markdown_files env)))
         \<and> (\<forall>i < length (concat (map extract_mermaid_diagrams (markdown_files env))).
              results (main env w') ! i =
               \<lparr>r_id = d_id (concat (map extract_mermaid_diagrams (markdown_files env)) ! i),
                r_file = d_file (concat (map extract_mermaid_diagrams (markdown_files env)) ! i),
                r_type = snd (validate_mermaid_syntax (content (concat (map extract_mermaid_diagrams (markdown_files env)) ! i))),
                syntax_errors = fst (validate_mermaid_syntax (content (concat (map extract_mermaid_diagrams (markdown_files env)) ! i))),
                render_test = fst (fst (test_mermaid_rendering (probe_os env i) w
                   (content (concat (map extract_mermaid_diagrams (markdown_files env)) ! i)))),
                render_message = Some (snd (fst (test_mermaid_rendering (probe_os env i) w
                   (content (concat (map extract_mermaid_diagrams (markdown_files env)) ! i)))))\<rparr>))"
proof (intro conjI impI; (elim conjE)?)
  show "fst (test_mermaid_rendering os w c) = (Some True, ''Rendered successfully'')"
    if "tmp_create os = Inr t" "tmp_write os c = None" "os_unlink os t = None"
      "mmdc os c = Completed 0 err"
    using that by (simp add: probe_clean)
  show "fst (test_mermaid_rendering os w c) = (Some False, ''Rendering failed: '' @ err)"
    if "tmp_create os = Inr t" "tmp_write os c = None" "os_unlink os t = None"
      "mmdc os c = Completed rc err" "rc \<noteq> 0"
    using that by (simp add: probe_clean)
  show "fst (test_mermaid_rendering os w c) = (None, ''Mermaid CLI not available'')"
    if "tmp_create os = Inr t" "tmp_write os c = None" "os_unlink os t = None"
      "mmdc os c = FileNotFoundError \<or> mmdc os c = TimeoutExpired"
    using that by (auto simp: probe_clean)
  show "fst (test_mermaid_rendering os w c) = (Some False, ''Rendering test error: '' @ e)"
    if "tmp_create os = Inr t" "tmp_write os c = None" "os_unlink os t = None"
      "mmdc os c = OtherError e"
    using that by (simp add: probe_clean)
  show "fst (test_mermaid_rendering os w c) = (Some False, ''Rendering test error: '' @ e)"
    if "tmp_create os = Inl e"
    using that by (simp add: probe_result)
  show "fst (test_mermaid_rendering os w c) = (Some False, ''Rendering test error: '' @ e)"
    if "tmp_create os = Inr t" "tmp_write os c = Some e"
    using that by (simp add: probe_result)
  show "fst (test_mermaid_rendering os w c) = (Some False, ''Rendering test error: '' @ e)"
    if "tmp_create os = Inr t" "tmp_write os c = None" "os_unlink os t = Some e"
    using that by (simp add: probe_result)
  show "Run [''mmdc'', ''-i'', t, ''-o'', ''/dev/null'', ''--quiet''] 10
           \<in> set (trace (snd (test_mermaid_rendering os w c)))"
    if "tmp_create os = Inr t" "tmp_write os c = None"
    using that by (rule probe_timeout)
  show "let r = fst (test_mermaid_rendering os w c);
           A = (r = (Some True, ''Rendered successfully''));
           B = (fst r = Some False \<and> prefix ''Rendering failed: '' (snd r));
           C = (r = (None, ''Mermaid CLI not available''));
           D = (fst r = Some False \<and> prefix ''Rendering test error: '' (snd r))
       in (A \<or> B \<or> C \<or> D) \<and> \<not> (A \<and> B) \<and> \<not> (A \<and> C) \<and> \<not> (A \<and> D)
          \<and> \<not> (B \<and> C) \<and> \<not> (B \<and> D) \<and> \<not> (C \<and> D)"
    by (rule probe_exactly_one)
  show "length (results (main env w')) = length (concat (map extract_mermaid_diagrams (markdown_files env)))"
    if "docs_exists env" "markdown_files env \<noteq> []"
    using that by (rule main_passed(3))
  show "\<forall>i < length (concat (map extract_mermaid_diagrams (markdown_files env))).
              results (main env w') ! i =
               \<lparr>r_id = d_id (concat (map extract_mermaid_diagrams (markdown_files env)) ! i),
                r_file = d_file (concat (map extract_mermaid_diagrams (markdown_files env)) ! i),
                r_type = snd (validate_mermaid_syntax (content (concat (map extract_mermaid_diagrams (markdown_files env)) ! i))),
                syntax_errors = fst (validate_mermaid_syntax (content (concat (map extract_mermaid_diagrams (markdown_files env)) ! i))),
                render_test = fst (fst (test_mermaid_rendering (probe_os env i) w
                   (content (concat (map extract_mermaid_diagrams (markdown_files env)) ! i)))),
                render_message = Some (snd (fst (test_mermaid_rendering (probe_os env i) w
                   (content (concat (map extract_mermaid_diagrams (markdown_files env)) ! i)))))\<rparr>"
    if "docs_exists env" "markdown_files env \<noteq> []"
    using that by (intro allI impI) (rule main_result_nth)
qed

theorem render_probe_outcomes_witness:
  "fst (test_mermaid_rendering os_present clean_world scenario_B) = (Some True, ''Rendered successfully'')
   \<and> fst (test_mermaid_rendering os_present clean_world indented_style)
       = (Some False, ''Rendering failed: Parse error'')
   \<and> fst (test_mermaid_rendering os_absent clean_world scenario_B) = (None, ''Mermaid CLI not available'')
   \<and> fst (test_mermaid_rendering os_slow clean_world scenario_B) = (None, ''Mermaid CLI not available'')
   \<and> fst (test_mermaid_rendering os_denied clean_world scenario_B)
       = (Some False, ''Rendering test error: Permission denied'')
   \<and> fst (test_mermaid_rendering os_full clean_world scenario_B)
       = (Some False, ''Rendering test error: No space left on device'')
   \<and> fst (test_mermaid_rendering os_ascii clean_world accented)
       = (Some False, ''Rendering test error: codec cannot encode character'')
   \<and> fst (test_mermaid_rendering os_locked clean_world scenario_B)
       = (Some False, ''Rendering test error: file is in use'')
   \<and> Run [''mmdc'', ''-i'', ''/tmp/tmpk3v9.mmd'', ''-o'', ''/dev/null'', ''--quiet''] 10
         \<in> set (trace (snd (test_mermaid_rendering os_slow clean_world scenario_B)))
   \<and> length (results (main small_docs clean_world)) = 3
   \<and> r_id (results (main small_docs clean_world) ! 2) = ''b.md_0''
   \<and> render_test (results (main small_docs clean_world) ! 2) = None"
proof -
  let ?t = "''/tmp/tmpk3v9.mmd''"
  have g: "contains ''graph'' scenario_B" "\<not> contains ''graph'' indented_style"
    by (simp_all add: scenario_B_def indented_style_def)
  have p: "tmp_create os_present = Inr ?t" "tmp_write os_present scenario_B = None"
    "tmp_write os_present indented_style = None" "os_unlink os_present ?t = None"
    "mmdc os_present scenario_B = Completed 0 []"
    "mmdc os_present indented_style = Completed 1 ''Parse error''"
    using g by (simp_all add: os_present_def)
  have a: "tmp_create os_absent = Inr ?t" "tmp_write os_absent scenario_B = None"
    "os_unlink os_absent ?t = None" "mmdc os_absent scenario_B = FileNotFoundError"
    by (simp_all add: os_absent_def)
  have s: "tmp_create os_slow = Inr ?t" "tmp_write os_slow scenario_B = None"
    "os_unlink os_slow ?t = None" "mmdc os_slow scenario_B = TimeoutExpired"
    by (simp_all add: os_slow_def)
  have d: "tmp_create os_denied = Inr ?t" "tmp_write os_denied scenario_B = None"
    "os_unlink os_denied ?t = None" "mmdc os_denied scenario_B = OtherError ''Permission denied''"
    by (simp_all add: os_denied_def)
  have f: "tmp_create os_full = Inl ''No space left on device''"
    by (simp add: os_full_def)
  have e: "tmp_create os_ascii = Inr ?t"
    "tmp_write os_ascii accented = Some ''codec cannot encode character''"
    by (simp_all add: os_ascii_def accented_def)
  have l: "tmp_create os_locked = Inr ?t" "tmp_write os_locked scenario_B = None"
    "os_unlink os_locked ?t = Some ''file is in use''"
    by (simp_all add: os_locked_def)
  have m: "docs_exists small_docs" "markdown_files small_docs \<noteq> []"
    "length (concat (map extract_mermaid_diagrams (markdown_files small_docs))) = 3"
    by (simp add: small_docs_def, simp add: small_docs_def, code_simp)
  have 1: "fst (test_mermaid_rendering os_present clean_world scenario_B)
      = (Some True, ''Rendered successfully'')"
    using render_probe_outcomes [of os_present ?t scenario_B "[]" clean_world] p by simp
  have 2: "fst (test_mermaid_rendering os_present clean_world indented_style)
      = (Some False, ''Rendering failed: Parse error'')"
    using render_probe_outcomes [of os_present ?t indented_style "''Parse error''" clean_world 1] p
    by simp
  have 3: "fst (test_mermaid_rendering os_absent clean_world scenario_B)
      = (None, ''Mermaid CLI not available'')"
    using render_probe_outcomes [of os_absent ?t scenario_B _ clean_world] a by simp
  have 4: "fst (test_mermaid_rendering os_slow clean_world scenario_B)
      = (None, ''Mermaid CLI not available'')"
    using render_probe_outcomes [of os_slow ?t scenario_B _ clean_world] s by simp
  have 5: "fst (test_mermaid_rendering os_denied clean_world scenario_B)
      = (Some False, ''Rendering test error: Permission denied'')"
    using render_probe_outcomes [of os_denied ?t scenario_B _ clean_world _ "''Permission denied''"] d
    by simp
  have 6: "fst (test_mermaid_rendering os_full clean_world scenario_B)
      = (Some False, ''Rendering test error: No space left on device'')"
    using render_probe_outcomes [of os_full _ scenario_B _ clean_world _ "''No space left on device''"] f
    by simp
  have 7: "fst (test_mermaid_rendering os_ascii clean_world accented)
      = (Some False, ''Rendering test error: codec cannot encode character'')"
    using render_probe_outcomes [of os_ascii ?t accented _ clean_world _
        "''codec cannot encode character''"] e
    by simp
  have 8: "fst (test_mermaid_rendering os_locked clean_world scenario_B)
      = (Some False, ''Rendering test error: file is in use'')"
    using render_probe_outcomes [of os_locked ?t scenario_B _ clean_world _ "''file is in use''"] l
    by simp
  have 9: "Run [''mmdc'', ''-i'', ?t, ''-o'', ''/dev/null'', ''--quiet''] 10
         \<in> set (trace (snd (test_mermaid_rendering os_slow clean_world scenario_B)))"
    using render_probe_outcomes [of os_slow ?t scenario_B _ clean_world] s by simp
  note T = render_probe_outcomes [where env = small_docs and w' = clean_world and w = clean_world]
  from T m have 10: "length (results (main small_docs clean_world)) = 3"
    by simp
  from T m have "\<forall>i<3. r_id (results (main small_docs clean_world) ! i)
        = d_id (concat (map extract_mermaid_diagrams (markdown_files small_docs)) ! i)
      \<and> render_test (results (main small_docs clean_world) ! i)
        = fst (fst (test_mermaid_rendering (probe_os small_docs i) clean_world
            (content (concat (map extract_mermaid_diagrams (markdown_files small_docs)) ! i))))"
    by simp
  then have "r_id (results (main small_docs clean_world) ! 2)
        = d_id (concat (map extract_mermaid_diagrams (markdown_files small_docs)) ! 2)
      \<and> render_test (results (main small_docs clean_world) ! 2)
        = fst (fst (test_mermaid_rendering (probe_os small_docs 2) clean_world
            (content (concat (map extract_mermaid_diagrams (markdown_files small_docs)) ! 2))))"
    by simp
  moreover have "d_id (concat (map extract_mermaid_diagrams (markdown_files small_docs)) ! 2) = ''b.md_0''"
    by code_simp
  moreover have "fst (fst (test_mermaid_rendering (probe_os small_docs 2) clean_world
            (content (concat (map extract_mermaid_diagrams (markdown_files small_docs)) ! 2)))) = None"
    by (simp add: probe_result small_docs_def os_absent_def)
  ultimately have 11: "r_id (results (main small_docs clean_world) ! 2) = ''b.md_0''
      \<and> render_test (results (main small_docs clean_world) ! 2) = None"
    by simp
  from 1 2 3 4 5 6 7 8 9 10 11 show ?thesis by simp
qed

text \<open>
  Claim C6, as stated, fails: when the renderer exits with status 0 and removing the
  temporary file raises, the exception of the \<^verbatim>\<open>finally\<close> clause replaces the result,
  and the probe returns false with a rendering test error.
\<close>

theorem render_probe_unlink_counterexample:
  "tmp_create os_locked = Inr ''/tmp/tmpk3v9.mmd''
   \<and> tmp_write os_locked scenario_B = None
   \<and> mmdc os_locked scenario_B = Completed 0 []
   \<and> fst (test_mermaid_rendering os_locked clean_world scenario_B)
       = (Some False, ''Rendering test error: file is in use'')
   \<and> fst (test_mermaid_rendering os_locked clean_world scenario_B)
       \<noteq> (Some True, ''Rendered successfully'')"
  by (simp add: probe_result os_locked_def)

text \<open>
  Claim C8 against the code: when writing the diagram into the temporary file raises
  (here a label outside ASCII under an ASCII default encoding), the probe returns a
  rendering test error without ever calling \<^verbatim>\<open>os.unlink\<close>, and the temporary file,
  created with \<^verbatim>\<open>delete=False\<close>, stays on disk: the \<^verbatim>\<open>finally\<close> clause guards the
  renderer call only.
\<close>

theorem temp_file_left_after_failed_write:
  "tmp_create os_ascii = Inr ''/tmp/tmpk3v9.mmd''
   \<and> tmp_write os_ascii accented = Some ''codec cannot encode character''
   \<and> fst (test_mermaid_rendering os_ascii clean_world accented)
       = (Some False, ''Rendering test error: codec cannot encode character'')
   \<and> ''/tmp/tmpk3v9.mmd'' \<notin> disk clean_world
   \<and> ''/tmp/tmpk3v9.mmd'' \<in> disk (snd (test_mermaid_rendering os_ascii clean_world accented))
   \<and> trace (snd (test_mermaid_rendering os_ascii clean_world accented))
       = [NamedTemporaryFile, Write ''/tmp/tmpk3v9.mmd'' accented]"
proof -
  have a: "tmp_create os_ascii = Inr ''/tmp/tmpk3v9.mmd''"
    by (simp add: os_ascii_def)
  have b: "tmp_write os_ascii accented = Some ''codec cannot encode character''"
    by (simp add: os_ascii_def accented_def)
  show ?thesis
    by (simp add: a b probe_result probe_disk probe_trace clean_world_def)
qed

end
